theory Spec2Isabelle
  imports Complex_Main
begin

section \<open>JavaScript objects and the session-scoped store\<close>

text \<open>
  A plain JavaScript object with string keys (a header object, the key/value pairs of
  \<open>sessionStorage\<close>) is an association list in insertion order. Assigning to a key that
  is present overwrites its value in place, assigning to a new key appends it.
\<close>

fun put :: "string \<Rightarrow> 'v \<Rightarrow> (string \<times> 'v) list \<Rightarrow> (string \<times> 'v) list" where
  "put k v [] = [(k, v)]"
| "put k v ((k', v') # kvs) = (if k' = k then (k, v) # kvs else (k', v') # put k v kvs)"

text \<open>Object spread \<open>{...a, ...b}\<close>: the properties of \<open>b\<close> are assigned onto \<open>a\<close> in order.\<close>

definition spread :: "(string \<times> 'v) list \<Rightarrow> (string \<times> 'v) list \<Rightarrow> (string \<times> 'v) list" where
  "spread a b = fold (\<lambda>kv. put (fst kv) (snd kv)) b a"

type_synonym storage = "(string \<times> string) list"

text \<open>\<open>sessionStorage.getItem\<close> answers \<open>null\<close> (here \<open>None\<close>) for a key that is not stored.\<close>

definition getItem :: "string \<Rightarrow> storage \<Rightarrow> string option" where
  "getItem k st = map_of st k"

definition setItem :: "string \<Rightarrow> string \<Rightarrow> storage \<Rightarrow> storage" where
  "setItem k v st = put k v st"

definition removeItem :: "string \<Rightarrow> storage \<Rightarrow> storage" where
  "removeItem k st = filter (\<lambda>kv. fst kv \<noteq> k) st"

text \<open>
  JavaScript truthiness of a value of type \<open>string | null\<close>: \<open>null\<close> and the empty string
  are falsy, every other string is truthy.
\<close>

fun truthy_string :: "string option \<Rightarrow> bool" where
  "truthy_string None = False"
| "truthy_string (Some s) = (s \<noteq> [])"


section \<open>Session store: \<open>AuthProvider\<close> (App.tsx, lines 50-80)\<close>

text \<open>
  The provider holds two pieces of React state, \<open>token\<close> and \<open>isLoggedIn\<close>; the third
  field is the browser's \<open>sessionStorage\<close>, which outlives a provider instance.
\<close>

record AuthProvider =
  token :: "string option"
  isLoggedIn :: bool
  sessionStorage :: storage

text \<open>A newly created provider over a given session store: the \<open>useState\<close> defaults.\<close>

definition AuthProvider_init :: "storage \<Rightarrow> AuthProvider" where
  "AuthProvider_init st = \<lparr>token = None, isLoggedIn = False, sessionStorage = st\<rparr>"

text \<open>
  The mount effect (lines 54-61): read \<open>authToken\<close>; \<open>if (savedToken)\<close> adopts it only
  when it is truthy.
\<close>

definition restore :: "AuthProvider \<Rightarrow> AuthProvider" where
  "restore s =
     (let savedToken = getItem ''authToken'' (sessionStorage s)
      in if truthy_string savedToken
         then s\<lparr>token := savedToken, isLoggedIn := True\<rparr>
         else s)"

definition login :: "string \<Rightarrow> AuthProvider \<Rightarrow> AuthProvider" where
  "login newToken s =
     s\<lparr>token := Some newToken,
       isLoggedIn := True,
       sessionStorage := setItem ''authToken'' newToken (sessionStorage s)\<rparr>"

definition logout :: "AuthProvider \<Rightarrow> AuthProvider" where
  "logout s =
     s\<lparr>token := None,
       isLoggedIn := False,
       sessionStorage := removeItem ''authToken'' (sessionStorage s)\<rparr>"

text \<open>
  The provider as a state machine: after its mount effect has run, the only writers of
  the session are \<open>login\<close> and \<open>logout\<close>.
\<close>

datatype session_op = Login string | Logout

fun session_step :: "AuthProvider \<Rightarrow> session_op \<Rightarrow> AuthProvider" where
  "session_step s (Login t) = login t s"
| "session_step s Logout = logout s"

definition mount :: "storage \<Rightarrow> AuthProvider" where
  "mount st = restore (AuthProvider_init st)"

definition session_run :: "storage \<Rightarrow> session_op list \<Rightarrow> AuthProvider" where
  "session_run st ops = foldl session_step (mount st) ops"

fun nonempty_login :: "session_op \<Rightarrow> bool" where
  "nonempty_login (Login t) = (t \<noteq> [])"
| "nonempty_login Logout = True"

text \<open>The session invariant of the specification: active exactly when a non-empty token is held.\<close>

definition session_inv :: "AuthProvider \<Rightarrow> bool" where
  "session_inv s = (isLoggedIn s = truthy_string (token s))"

text \<open>The weaker reading: active exactly when a token is held, empty or not.\<close>

definition session_present :: "AuthProvider \<Rightarrow> bool" where
  "session_present s = (isLoggedIn s = (token s \<noteq> None))"


section \<open>Response envelope and the values it carries\<close>

datatype status = SUCCESS | FAILURE

text \<open>The interface \<open>ApiResponse<T>\<close> (lines 35-38).\<close>

record 'a ApiResponse =
  status :: status
  data :: 'a

text \<open>
  A value of type \<open>any\<close>, as far as a parsed JSON body can produce one. The code tests
  such a value only for truthiness and passes it to \<open>String\<close>.
\<close>

datatype jsval =
    JUndefined
  | JNull
  | JBool bool
  | JNumber real
  | JString string
  | JArray "jsval list"
  | JObject "(string \<times> jsval) list"

fun truthy :: "jsval \<Rightarrow> bool" where
  "truthy JUndefined = False"
| "truthy JNull = False"
| "truthy (JBool b) = b"
| "truthy (JNumber n) = (n \<noteq> 0)"
| "truthy (JString s) = (s \<noteq> [])"
| "truthy (JArray xs) = True"
| "truthy (JObject kvs) = True"

text \<open>The interfaces \<open>Friend\<close> (lines 352-355) and \<open>FriendRequest\<close> (lines 448-451).\<close>

record Friend =
  username :: string
  email :: "string option"

record FriendRequest =
  senderName :: string


section \<open>Remote client: \<open>apiCall\<close> and \<open>authenticatedApiCall\<close> (lines 91-112)\<close>

text \<open>
  The \<open>RequestInit\<close> properties the program sets; \<open>http_method\<close> is the property
  \<open>method\<close>. \<open>None\<close> is a property that is not present on the object.
\<close>

record RequestInit =
  http_method :: "string option"
  body :: "string option"
  headers :: "(string \<times> string) list option"

text \<open>The two arguments \<open>fetch\<close> is called with.\<close>

record request =
  url :: string
  init :: RequestInit

text \<open>
  The default parameter \<open>options = {}\<close>, and the options object \<open>{ method: m }\<close>.
\<close>

definition no_options :: RequestInit where
  "no_options = \<lparr>http_method = None, body = None, headers = None\<rparr>"

definition with_method :: "string \<Rightarrow> RequestInit" where
  "with_method m = \<lparr>http_method = Some m, body = None, headers = None\<rparr>"

text \<open>
  What the transport does with a request: \<open>fetch\<close> rejects (the network is unreachable),
  or it resolves and \<open>response.json()\<close> rejects (the body is not JSON), or the body parses
  to a value, taken to have the type the call site declares for it.
\<close>

datatype 'a fetch_result = NetworkFailure | MalformedBody | Json 'a

type_synonym 'a network = "request \<Rightarrow> 'a fetch_result"

text \<open>The exceptions an awaited client call can throw into its caller.\<close>

datatype exn = FetchRejected | JsonRejected

definition API_BASE :: string where
  "API_BASE = ''http://localhost:80''"

text \<open>\<open>...options.headers\<close> spreads nothing when \<open>options\<close> has no \<open>headers\<close>.\<close>

fun own_headers :: "RequestInit \<Rightarrow> (string \<times> string) list" where
  "own_headers options = (case headers options of None \<Rightarrow> [] | Some h \<Rightarrow> h)"

text \<open>
  The object literal of lines 94-100, \<open>{ headers: {...}, ...options }\<close>: the merged
  headers are written first and every property present on \<open>options\<close> is then assigned
  over the literal, \<open>headers\<close> included.
\<close>

definition fetch_init :: "RequestInit \<Rightarrow> RequestInit" where
  "fetch_init options =
     (let merged = spread [(''Content-Type'', ''application/json'')] (own_headers options)
      in \<lparr>http_method = http_method options,
          body = body options,
          headers = (case headers options of None \<Rightarrow> Some merged | Some h \<Rightarrow> Some h)\<rparr>)"

definition fetch_request :: "string \<Rightarrow> RequestInit \<Rightarrow> request" where
  "fetch_request endpoint options = \<lparr>url = API_BASE @ endpoint, init = fetch_init options\<rparr>"

text \<open>The awaited result of \<open>fetch(...)\<close> followed by \<open>response.json()\<close>.\<close>

fun settle :: "'a fetch_result \<Rightarrow> exn + 'a" where
  "settle NetworkFailure = Inl FetchRejected"
| "settle MalformedBody = Inl JsonRejected"
| "settle (Json j) = Inr j"

text \<open>
  \<open>apiCall\<close> has no \<open>try\<close>: it returns what the transport parsed, or throws. The second
  component is the request it handed to \<open>fetch\<close>.
\<close>

definition apiCall :: "'a network \<Rightarrow> string \<Rightarrow> RequestInit \<Rightarrow> (exn + 'a) \<times> request" where
  "apiCall net endpoint options =
     (let req = fetch_request endpoint options in (settle (net req), req))"

text \<open>Lines 104-112: \<open>{ ...options, headers: { Authorization: ..., ...options.headers } }\<close>.\<close>

definition authenticated_options :: "string \<Rightarrow> RequestInit \<Rightarrow> RequestInit" where
  "authenticated_options tok options =
     options\<lparr>headers := Some (spread [(''Authorization'', ''Bearer '' @ tok)] (own_headers options))\<rparr>"

definition authenticatedApiCall ::
  "'a network \<Rightarrow> string \<Rightarrow> string \<Rightarrow> RequestInit \<Rightarrow> (exn + 'a) \<times> request" where
  "authenticatedApiCall net endpoint tok options =
     apiCall net endpoint (authenticated_options tok options)"


section \<open>Relationship state: \<open>FriendsPanel\<close> and \<open>FriendRequestsPanel\<close> (lines 357-537)\<close>

text \<open>
  The fixed texts handed to \<open>message.error\<close> and \<open>message.success\<close>, one constructor
  per string literal of the source (the literals are Ukrainian; the line is given).
\<close>

datatype literal =
    LoadFriendsFailed      \<comment> \<open>line 375\<close>
  | RemoveFriendFailed     \<comment> \<open>line 393\<close>
  | FriendRemoved          \<comment> \<open>line 390\<close>
  | LoadRequestsFailed     \<comment> \<open>lines 473 and 476\<close>
  | SendRequestFailed      \<comment> \<open>lines 494 and 497\<close>
  | RequestSent            \<comment> \<open>line 492\<close>
  | AcceptFailed           \<comment> \<open>lines 514 and 517\<close>
  | RequestAccepted        \<comment> \<open>line 512\<close>
  | DeclineFailed          \<comment> \<open>lines 532 and 535\<close>
  | RequestDeclined        \<comment> \<open>line 530\<close>

text \<open>
  The argument of a message: a literal, a string taken from the envelope as it is, or
  the result of \<open>String(response.data)\<close>, which is kept as the value it is applied to.
\<close>

datatype content =
    Literal literal
  | Text string
  | StringOf jsval
  | StringOfRequests "FriendRequest list"

datatype notice = Error content | Success content

text \<open>
  The state of the two panels of the dashboard, with the effects the operations have
  outside React state: the messages shown and the requests handed to \<open>fetch\<close>. Both
  panels name their spinner flag \<open>loading\<close>; \<open>form\<close> is the value of the one field
  (\<open>username\<close>) of the request form.
\<close>

record world =
  friends :: "Friend list"
  friendsLoading :: bool
  requests :: "FriendRequest list"
  requestsLoading :: bool
  sendingRequest :: bool
  form :: "string option"
  notices :: "notice list"
  issued :: "request list"

text \<open>The \<open>useState\<close> defaults of both panels; nothing shown or sent yet.\<close>

definition Dashboard_init :: world where
  "Dashboard_init =
     \<lparr>friends = [], friendsLoading = True, requests = [], requestsLoading = True,
      sendingRequest = False, form = None, notices = [], issued = []\<rparr>"

definition message_error :: "content \<Rightarrow> world \<Rightarrow> world" where
  "message_error c w = w\<lparr>notices := notices w @ [Error c]\<rparr>"

definition message_success :: "content \<Rightarrow> world \<Rightarrow> world" where
  "message_success c w = w\<lparr>notices := notices w @ [Success c]\<rparr>"

text \<open>Handing a request to \<open>fetch\<close>: the world at the \<open>await\<close>, before the call resolves.\<close>

definition awaiting :: "(exn + 'a) \<times> request \<Rightarrow> world \<Rightarrow> (exn + 'a) \<times> world" where
  "awaiting call w = (fst call, w\<lparr>issued := issued w @ [snd call]\<rparr>)"

text \<open>
  Each operation is an \<open>async\<close> function with one \<open>await\<close>. It is modelled in two parts:
  \<open>_await\<close> runs the code up to the suspension and gives the world at that point together
  with what the call will resolve to (\<open>None\<close> when the function returned before calling);
  \<open>_resume\<close> is the rest of the \<open>try\<close>, the \<open>catch\<close> and the \<open>finally\<close>.
\<close>

subsection \<open>\<open>loadFriends\<close> (lines 366-379)\<close>

definition loadFriends_await ::
  "(Friend list option) ApiResponse network \<Rightarrow> string option \<Rightarrow> world
     \<Rightarrow> ((exn + (Friend list option) ApiResponse) \<times> world) option" where
  "loadFriends_await net tok w =
     (if \<not> truthy_string tok then None
      else case tok of None \<Rightarrow> None
         | Some t \<Rightarrow> Some (awaiting (authenticatedApiCall net ''/api/v1/friendship/friends'' t no_options) w))"

definition loadFriends_resume :: "exn + (Friend list option) ApiResponse \<Rightarrow> world \<Rightarrow> world" where
  "loadFriends_resume r w =
     (let w1 = (case r of
                  Inr response \<Rightarrow>
                    if status response = SUCCESS
                    then w\<lparr>friends := (case data response of None \<Rightarrow> [] | Some p \<Rightarrow> p)\<rparr>
                    else w
                | Inl err \<Rightarrow> message_error (Literal LoadFriendsFailed) w)
      in w1\<lparr>friendsLoading := False\<rparr>)"

definition loadFriends ::
  "(Friend list option) ApiResponse network \<Rightarrow> string option \<Rightarrow> world \<Rightarrow> world" where
  "loadFriends net tok w =
     (case loadFriends_await net tok w of None \<Rightarrow> w | Some (r, w') \<Rightarrow> loadFriends_resume r w')"

subsection \<open>\<open>removeFriend\<close> (lines 381-395)\<close>

definition removeFriend_await ::
  "jsval ApiResponse network \<Rightarrow> string option \<Rightarrow> string \<Rightarrow> world
     \<Rightarrow> ((exn + jsval ApiResponse) \<times> world) option" where
  "removeFriend_await net tok friendId w =
     (if \<not> truthy_string tok then None
      else case tok of None \<Rightarrow> None
         | Some t \<Rightarrow> Some (awaiting (authenticatedApiCall net
                              (''/api/v1/friendship/delete/'' @ friendId) t (with_method ''DELETE'')) w))"

definition removeFriend_resume :: "exn + jsval ApiResponse \<Rightarrow> string \<Rightarrow> world \<Rightarrow> world" where
  "removeFriend_resume r friendId w =
     (case r of
        Inr response \<Rightarrow>
          if status response = SUCCESS
          then message_success (Literal FriendRemoved)
                 (w\<lparr>friends := filter (\<lambda>f. username f \<noteq> friendId) (friends w)\<rparr>)
          else w
      | Inl err \<Rightarrow> message_error (Literal RemoveFriendFailed) w)"

definition removeFriend ::
  "jsval ApiResponse network \<Rightarrow> string option \<Rightarrow> string \<Rightarrow> world \<Rightarrow> world" where
  "removeFriend net tok friendId w =
     (case removeFriend_await net tok friendId w of
        None \<Rightarrow> w | Some (r, w') \<Rightarrow> removeFriend_resume r friendId w')"

subsection \<open>\<open>loadRequests\<close> (lines 464-480)\<close>

definition loadRequests_await ::
  "(FriendRequest list option) ApiResponse network \<Rightarrow> string option \<Rightarrow> world
     \<Rightarrow> ((exn + (FriendRequest list option) ApiResponse) \<times> world) option" where
  "loadRequests_await net tok w =
     (if \<not> truthy_string tok then None
      else case tok of None \<Rightarrow> None
         | Some t \<Rightarrow> Some (awaiting (authenticatedApiCall net ''/api/v1/friendship/requests'' t no_options) w))"

definition loadRequests_resume ::
  "exn + (FriendRequest list option) ApiResponse \<Rightarrow> world \<Rightarrow> world" where
  "loadRequests_resume r w =
     (let w1 = (case r of
                  Inr response \<Rightarrow>
                    if status response = SUCCESS
                    then w\<lparr>requests := (case data response of None \<Rightarrow> [] | Some p \<Rightarrow> p)\<rparr>
                    else message_error
                           (case data response of
                              None \<Rightarrow> Literal LoadRequestsFailed
                            | Some p \<Rightarrow> StringOfRequests p) w
                | Inl err \<Rightarrow> message_error (Literal LoadRequestsFailed) w)
      in w1\<lparr>requestsLoading := False\<rparr>)"

definition loadRequests ::
  "(FriendRequest list option) ApiResponse network \<Rightarrow> string option \<Rightarrow> world \<Rightarrow> world" where
  "loadRequests net tok w =
     (case loadRequests_await net tok w of None \<Rightarrow> w | Some (r, w') \<Rightarrow> loadRequests_resume r w')"

subsection \<open>\<open>sendFriendRequest\<close> (lines 482-501); the argument is \<open>values.username\<close>\<close>

definition sendFriendRequest_await ::
  "(string option) ApiResponse network \<Rightarrow> string option \<Rightarrow> string \<Rightarrow> world
     \<Rightarrow> ((exn + (string option) ApiResponse) \<times> world) option" where
  "sendFriendRequest_await net tok values_username w =
     (if \<not> truthy_string tok then None
      else case tok of None \<Rightarrow> None
         | Some t \<Rightarrow> Some (awaiting (authenticatedApiCall net
                              (''/api/v1/friendship/request/'' @ values_username) t (with_method ''POST''))
                            (w\<lparr>sendingRequest := True\<rparr>)))"

definition sendFriendRequest_resume :: "exn + (string option) ApiResponse \<Rightarrow> world \<Rightarrow> world" where
  "sendFriendRequest_resume r w =
     (let w1 = (case r of
                  Inr response \<Rightarrow>
                    if status response = SUCCESS
                    then message_success (Literal RequestSent) (w\<lparr>form := None\<rparr>)
                    else message_error
                           (if truthy_string (data response)
                            then (case data response of
                                    None \<Rightarrow> Literal SendRequestFailed | Some s \<Rightarrow> Text s)
                            else Literal SendRequestFailed) w
                | Inl err \<Rightarrow> message_error (Literal SendRequestFailed) w)
      in w1\<lparr>sendingRequest := False\<rparr>)"

definition sendFriendRequest ::
  "(string option) ApiResponse network \<Rightarrow> string option \<Rightarrow> string \<Rightarrow> world \<Rightarrow> world" where
  "sendFriendRequest net tok values_username w =
     (case sendFriendRequest_await net tok values_username w of
        None \<Rightarrow> w | Some (r, w') \<Rightarrow> sendFriendRequest_resume r w')"

subsection \<open>\<open>acceptRequest\<close> (lines 503-519)\<close>

definition acceptRequest_await ::
  "jsval ApiResponse network \<Rightarrow> string option \<Rightarrow> string \<Rightarrow> world
     \<Rightarrow> ((exn + jsval ApiResponse) \<times> world) option" where
  "acceptRequest_await net tok sender w =
     (if \<not> truthy_string tok then None
      else case tok of None \<Rightarrow> None
         | Some t \<Rightarrow> Some (awaiting (authenticatedApiCall net
                              (''/api/v1/friendship/accept/'' @ sender) t (with_method ''PUT'')) w))"

definition acceptRequest_resume :: "exn + jsval ApiResponse \<Rightarrow> string \<Rightarrow> world \<Rightarrow> world" where
  "acceptRequest_resume r sender w =
     (case r of
        Inr response \<Rightarrow>
          if status response = SUCCESS
          then message_success (Literal RequestAccepted)
                 (w\<lparr>requests := filter (\<lambda>r. senderName r \<noteq> sender) (requests w)\<rparr>)
          else message_error
                 (if truthy (data response) then StringOf (data response)
                  else Literal AcceptFailed) w
      | Inl err \<Rightarrow> message_error (Literal AcceptFailed) w)"

definition acceptRequest ::
  "jsval ApiResponse network \<Rightarrow> string option \<Rightarrow> string \<Rightarrow> world \<Rightarrow> world" where
  "acceptRequest net tok sender w =
     (case acceptRequest_await net tok sender w of
        None \<Rightarrow> w | Some (r, w') \<Rightarrow> acceptRequest_resume r sender w')"

subsection \<open>\<open>declineRequest\<close> (lines 521-537)\<close>

definition declineRequest_await ::
  "jsval ApiResponse network \<Rightarrow> string option \<Rightarrow> string \<Rightarrow> world
     \<Rightarrow> ((exn + jsval ApiResponse) \<times> world) option" where
  "declineRequest_await net tok sender w =
     (if \<not> truthy_string tok then None
      else case tok of None \<Rightarrow> None
         | Some t \<Rightarrow> Some (awaiting (authenticatedApiCall net
                              (''/api/v1/friendship/decline/'' @ sender) t (with_method ''PUT'')) w))"

definition declineRequest_resume :: "exn + jsval ApiResponse \<Rightarrow> string \<Rightarrow> world \<Rightarrow> world" where
  "declineRequest_resume r sender w =
     (case r of
        Inr response \<Rightarrow>
          if status response = SUCCESS
          then message_success (Literal RequestDeclined)
                 (w\<lparr>requests := filter (\<lambda>r. senderName r \<noteq> sender) (requests w)\<rparr>)
          else message_error
                 (if truthy (data response) then StringOf (data response)
                  else Literal DeclineFailed) w
      | Inl err \<Rightarrow> message_error (Literal DeclineFailed) w)"

definition declineRequest ::
  "jsval ApiResponse network \<Rightarrow> string option \<Rightarrow> string \<Rightarrow> world \<Rightarrow> world" where
  "declineRequest net tok sender w =
     (case declineRequest_await net tok sender w of
        None \<Rightarrow> w | Some (r, w') \<Rightarrow> declineRequest_resume r sender w')"


section \<open>Vocabulary of the properties\<close>

text \<open>Three transports: one that answers every request with the body \<open>e\<close>, and two that fail.\<close>

definition reply :: "'a \<Rightarrow> 'a network" where
  "reply e req = Json e"

definition unreachable :: "'a network" where
  "unreachable req = NetworkFailure"

definition garbled :: "'a network" where
  "garbled req = MalformedBody"

text \<open>The awaited call resolved with an envelope whose status is \<open>SUCCESS\<close>.\<close>

fun resolved_success :: "exn + 'a ApiResponse \<Rightarrow> bool" where
  "resolved_success (Inl err) = False"
| "resolved_success (Inr response) = (status response = SUCCESS)"

text \<open>
  The specification's \<open>dedupe\<close>. The source has no de-duplication function; this
  definition follows the specification's words (collections ``keyed by identifier'' with
  ``no duplicate identifiers'') and is what the result of loading is compared with:
  de-duplication by key that keeps the first entry of each identifier, in order.
\<close>

fun spec_dedupe_seen :: "('a \<Rightarrow> string) \<Rightarrow> string list \<Rightarrow> 'a list \<Rightarrow> 'a list" where
  "spec_dedupe_seen key seen [] = []"
| "spec_dedupe_seen key seen (x # xs) =
     (if key x \<in> set seen then spec_dedupe_seen key seen xs
      else x # spec_dedupe_seen key (key x # seen) xs)"

definition spec_dedupe :: "('a \<Rightarrow> string) \<Rightarrow> 'a list \<Rightarrow> 'a list" where
  "spec_dedupe key xs = spec_dedupe_seen key [] xs"


text \<open>The two collections the relationship operations reconcile.\<close>

definition collections :: "world \<Rightarrow> Friend list \<times> FriendRequest list" where
  "collections w = (friends w, requests w)"

text \<open>An envelope, and the data of the scenarios the properties are exercised on.\<close>

definition envelope :: "status \<Rightarrow> 'a \<Rightarrow> 'a ApiResponse" where
  "envelope st d = \<lparr>status = st, data = d\<rparr>"

definition dave :: Friend where
  "dave = \<lparr>username = ''dave'', email = None\<rparr>"

definition erin :: Friend where
  "erin = \<lparr>username = ''erin'', email = Some ''erin@example.org''\<rparr>"

definition carol :: FriendRequest where
  "carol = \<lparr>senderName = ''carol''\<rparr>"

definition bob :: FriendRequest where
  "bob = \<lparr>senderName = ''bob''\<rparr>"

text \<open>A dashboard whose two collections both hold an identifier twice.\<close>

definition populated :: world where
  "populated = Dashboard_init\<lparr>friends := [dave, erin, dave], requests := [carol, bob, carol]\<rparr>"

section \<open>Unfolding sets and auxiliary facts\<close>

lemmas client_defs = apiCall_def authenticatedApiCall_def awaiting_def

lemmas message_defs = message_error_def message_success_def collections_def

lemmas await_defs = loadFriends_await_def removeFriend_await_def loadRequests_await_def
  sendFriendRequest_await_def acceptRequest_await_def declineRequest_await_def

lemmas resume_defs = loadFriends_resume_def removeFriend_resume_def loadRequests_resume_def
  sendFriendRequest_resume_def acceptRequest_resume_def declineRequest_resume_def

lemmas op_defs = loadFriends_def removeFriend_def loadRequests_def
  sendFriendRequest_def acceptRequest_def declineRequest_def

lemmas run_defs = op_defs await_defs resume_defs client_defs message_defs Let_def

lemmas scenario_defs = dave_def erin_def carol_def bob_def populated_def envelope_def
  Dashboard_init_def reply_def unreachable_def garbled_def

lemmas session_defs = mount_def restore_def AuthProvider_init_def login_def logout_def
  getItem_def setItem_def removeItem_def session_run_def

subsection \<open>The session store\<close>

lemma map_of_put_same: "map_of (put k v kvs) k = Some v"
  by (induction kvs) auto

lemma map_of_remove_same: "map_of (filter (\<lambda>kv. fst kv \<noteq> k) kvs) k = None"
  by (induction kvs) auto

lemma getItem_setItem: "getItem k (setItem k v st) = Some v"
  by (simp add: getItem_def setItem_def map_of_put_same)

lemma getItem_removeItem: "getItem k (removeItem k st) = None"
  by (simp add: getItem_def removeItem_def map_of_remove_same)

lemma session_inv_login: "t \<noteq> [] \<Longrightarrow> session_inv (login t s)"
  by (simp add: session_inv_def login_def)

lemma session_inv_logout: "session_inv (logout s)"
  by (simp add: session_inv_def logout_def)

lemma session_inv_restore: "session_inv s \<Longrightarrow> session_inv (restore s)"
  by (auto simp: session_inv_def restore_def Let_def)

lemma session_inv_mount: "session_inv (mount st)"
  unfolding mount_def
  by (rule session_inv_restore) (simp add: session_inv_def AuthProvider_init_def)

lemma session_inv_step:
  "session_inv s \<Longrightarrow> nonempty_login a \<Longrightarrow> session_inv (session_step s a)"
  by (cases a) (simp_all add: session_inv_login session_inv_logout)

lemma session_inv_foldl:
  "session_inv s \<Longrightarrow> list_all nonempty_login acts \<Longrightarrow> session_inv (foldl session_step s acts)"
  by (induction acts arbitrary: s) (simp_all add: session_inv_step)

lemma session_present_login: "session_present (login t s)"
  by (simp add: session_present_def login_def)

lemma session_present_logout: "session_present (logout s)"
  by (simp add: session_present_def logout_def)

lemma session_present_restore: "session_present s \<Longrightarrow> session_present (restore s)"
  by (cases "getItem ''authToken'' (sessionStorage s)")
     (auto simp: session_present_def restore_def Let_def)

lemma session_present_mount: "session_present (mount st)"
  unfolding mount_def
  by (rule session_present_restore) (simp add: session_present_def AuthProvider_init_def)

lemma session_present_step: "session_present (session_step s a)"
  by (cases a) (simp_all add: session_present_login session_present_logout)

lemma session_present_foldl:
  "session_present s \<Longrightarrow> session_present (foldl session_step s acts)"
  by (induction acts arbitrary: s) (simp_all add: session_present_step)

subsection \<open>An operation is its continuation applied at the suspension point\<close>

lemma loadFriends_run:
  "loadFriends_await net tok w = Some (r, w') \<Longrightarrow>
     loadFriends net tok w = loadFriends_resume r w'"
  by (simp add: loadFriends_def)

lemma removeFriend_run:
  "removeFriend_await net tok x w = Some (r, w') \<Longrightarrow>
     removeFriend net tok x w = removeFriend_resume r x w'"
  by (simp add: removeFriend_def)

lemma loadRequests_run:
  "loadRequests_await net tok w = Some (r, w') \<Longrightarrow>
     loadRequests net tok w = loadRequests_resume r w'"
  by (simp add: loadRequests_def)

lemma sendFriendRequest_run:
  "sendFriendRequest_await net tok x w = Some (r, w') \<Longrightarrow>
     sendFriendRequest net tok x w = sendFriendRequest_resume r w'"
  by (simp add: sendFriendRequest_def)

lemma acceptRequest_run:
  "acceptRequest_await net tok x w = Some (r, w') \<Longrightarrow>
     acceptRequest net tok x w = acceptRequest_resume r x w'"
  by (simp add: acceptRequest_def)

lemma declineRequest_run:
  "declineRequest_await net tok x w = Some (r, w') \<Longrightarrow>
     declineRequest net tok x w = declineRequest_resume r x w'"
  by (simp add: declineRequest_def)

subsection \<open>The world at the suspension point\<close>

lemma loadFriends_suspended:
  "loadFriends_await net tok w = Some (r, w') \<Longrightarrow>
     friends w' = friends w \<and> requests w' = requests w \<and> notices w' = notices w \<and> form w' = form w"
  by (auto simp: loadFriends_await_def awaiting_def split: option.splits if_splits)

lemma removeFriend_suspended:
  "removeFriend_await net tok x w = Some (r, w') \<Longrightarrow>
     friends w' = friends w \<and> requests w' = requests w \<and> notices w' = notices w \<and> form w' = form w"
  by (auto simp: removeFriend_await_def awaiting_def split: option.splits if_splits)

lemma loadRequests_suspended:
  "loadRequests_await net tok w = Some (r, w') \<Longrightarrow>
     friends w' = friends w \<and> requests w' = requests w \<and> notices w' = notices w \<and> form w' = form w"
  by (auto simp: loadRequests_await_def awaiting_def split: option.splits if_splits)

lemma sendFriendRequest_suspended:
  "sendFriendRequest_await net tok x w = Some (r, w') \<Longrightarrow>
     friends w' = friends w \<and> requests w' = requests w \<and> notices w' = notices w \<and> form w' = form w"
  by (auto simp: sendFriendRequest_await_def awaiting_def split: option.splits if_splits)

lemma acceptRequest_suspended:
  "acceptRequest_await net tok x w = Some (r, w') \<Longrightarrow>
     friends w' = friends w \<and> requests w' = requests w \<and> notices w' = notices w \<and> form w' = form w"
  by (auto simp: acceptRequest_await_def awaiting_def split: option.splits if_splits)

lemma declineRequest_suspended:
  "declineRequest_await net tok x w = Some (r, w') \<Longrightarrow>
     friends w' = friends w \<and> requests w' = requests w \<and> notices w' = notices w \<and> form w' = form w"
  by (auto simp: declineRequest_await_def awaiting_def split: option.splits if_splits)

subsection \<open>What each continuation does to the two collections\<close>

lemma loadFriends_resume_collections:
  "friends (loadFriends_resume r w) =
     (case r of Inl err \<Rightarrow> friends w
      | Inr e \<Rightarrow> if status e = SUCCESS then (case data e of None \<Rightarrow> [] | Some p \<Rightarrow> p)
                 else friends w)"
  "requests (loadFriends_resume r w) = requests w"
  by (auto simp: loadFriends_resume_def message_error_def Let_def split: sum.splits)

lemma loadRequests_resume_collections:
  "requests (loadRequests_resume r w) =
     (case r of Inl err \<Rightarrow> requests w
      | Inr e \<Rightarrow> if status e = SUCCESS then (case data e of None \<Rightarrow> [] | Some p \<Rightarrow> p)
                 else requests w)"
  "friends (loadRequests_resume r w) = friends w"
  by (auto simp: loadRequests_resume_def message_error_def Let_def split: sum.splits)

lemma removeFriend_resume_collections:
  "friends (removeFriend_resume r x w) =
     (if resolved_success r then filter (\<lambda>f. username f \<noteq> x) (friends w) else friends w)"
  "requests (removeFriend_resume r x w) = requests w"
  by (cases r; simp add: removeFriend_resume_def message_error_def message_success_def)+

lemma acceptRequest_resume_collections:
  "requests (acceptRequest_resume r x w) =
     (if resolved_success r then filter (\<lambda>q. senderName q \<noteq> x) (requests w) else requests w)"
  "friends (acceptRequest_resume r x w) = friends w"
  by (cases r; simp add: acceptRequest_resume_def message_error_def message_success_def)+

lemma declineRequest_resume_collections:
  "requests (declineRequest_resume r x w) =
     (if resolved_success r then filter (\<lambda>q. senderName q \<noteq> x) (requests w) else requests w)"
  "friends (declineRequest_resume r x w) = friends w"
  by (cases r; simp add: declineRequest_resume_def message_error_def message_success_def)+

lemma sendFriendRequest_resume_collections:
  "friends (sendFriendRequest_resume r w) = friends w"
  "requests (sendFriendRequest_resume r w) = requests w"
  by (cases r; simp add: sendFriendRequest_resume_def message_error_def message_success_def Let_def)+

subsection \<open>Each operation, from its suspension to its end\<close>

lemma loadFriends_confirmed:
  "loadFriends_await net tok w = Some (r, w') \<Longrightarrow>
     collections w' = collections w \<and> loadFriends net tok w = loadFriends_resume r w' \<and>
     (\<not> resolved_success r \<longrightarrow> collections (loadFriends_resume r w') = collections w)"
  by (cases r)
     (simp_all add: loadFriends_run loadFriends_suspended loadFriends_resume_collections
        collections_def)

lemma removeFriend_confirmed:
  "removeFriend_await net tok x w = Some (r, w') \<Longrightarrow>
     collections w' = collections w \<and> removeFriend net tok x w = removeFriend_resume r x w' \<and>
     (\<not> resolved_success r \<longrightarrow> collections (removeFriend_resume r x w') = collections w)"
  by (simp add: removeFriend_run removeFriend_suspended removeFriend_resume_collections
        collections_def)

lemma loadRequests_confirmed:
  "loadRequests_await net tok w = Some (r, w') \<Longrightarrow>
     collections w' = collections w \<and> loadRequests net tok w = loadRequests_resume r w' \<and>
     (\<not> resolved_success r \<longrightarrow> collections (loadRequests_resume r w') = collections w)"
  by (cases r)
     (simp_all add: loadRequests_run loadRequests_suspended loadRequests_resume_collections
        collections_def)

lemma sendFriendRequest_confirmed:
  "sendFriendRequest_await net tok x w = Some (r, w') \<Longrightarrow>
     collections w' = collections w
     \<and> sendFriendRequest net tok x w = sendFriendRequest_resume r w'
     \<and> collections (sendFriendRequest_resume r w') = collections w"
  by (simp add: sendFriendRequest_run sendFriendRequest_suspended
        sendFriendRequest_resume_collections collections_def)

lemma acceptRequest_confirmed:
  "acceptRequest_await net tok x w = Some (r, w') \<Longrightarrow>
     collections w' = collections w \<and> acceptRequest net tok x w = acceptRequest_resume r x w' \<and>
     (\<not> resolved_success r \<longrightarrow> collections (acceptRequest_resume r x w') = collections w)"
  by (simp add: acceptRequest_run acceptRequest_suspended acceptRequest_resume_collections
        collections_def)

lemma declineRequest_confirmed:
  "declineRequest_await net tok x w = Some (r, w') \<Longrightarrow>
     collections w' = collections w \<and> declineRequest net tok x w = declineRequest_resume r x w' \<and>
     (\<not> resolved_success r \<longrightarrow> collections (declineRequest_resume r x w') = collections w)"
  by (simp add: declineRequest_run declineRequest_suspended declineRequest_resume_collections
        collections_def)

subsection \<open>A thrown call is caught by the operation that made it\<close>

lemma apiCall_throws:
  "net (fetch_request endpoint options) = NetworkFailure \<Longrightarrow>
     fst (apiCall net endpoint options) = Inl FetchRejected"
  "net (fetch_request endpoint options) = MalformedBody \<Longrightarrow>
     fst (apiCall net endpoint options) = Inl JsonRejected"
  by (simp_all add: apiCall_def)

lemma loadFriends_caught:
  "loadFriends_await net tok w = Some (Inl err, w') \<Longrightarrow>
     collections (loadFriends net tok w) = collections w \<and>
     notices (loadFriends net tok w) = notices w @ [Error (Literal LoadFriendsFailed)]"
  by (simp add: loadFriends_run loadFriends_suspended loadFriends_resume_collections
        collections_def)
     (simp add: loadFriends_resume_def message_error_def loadFriends_suspended)

lemma loadRequests_caught:
  "loadRequests_await net tok w = Some (Inl err, w') \<Longrightarrow>
     collections (loadRequests net tok w) = collections w \<and>
     notices (loadRequests net tok w) = notices w @ [Error (Literal LoadRequestsFailed)]"
  by (simp add: loadRequests_run loadRequests_suspended loadRequests_resume_collections
        collections_def)
     (simp add: loadRequests_resume_def message_error_def loadRequests_suspended)

lemma sendFriendRequest_caught:
  "sendFriendRequest_await net tok x w = Some (Inl err, w') \<Longrightarrow>
     collections (sendFriendRequest net tok x w) = collections w \<and>
     notices (sendFriendRequest net tok x w) = notices w @ [Error (Literal SendRequestFailed)]"
  by (simp add: sendFriendRequest_run sendFriendRequest_suspended
        sendFriendRequest_resume_collections collections_def)
     (simp add: sendFriendRequest_resume_def message_error_def sendFriendRequest_suspended)

lemma acceptRequest_caught:
  "acceptRequest_await net tok x w = Some (Inl err, w') \<Longrightarrow>
     collections (acceptRequest net tok x w) = collections w \<and>
     notices (acceptRequest net tok x w) = notices w @ [Error (Literal AcceptFailed)]"
  by (simp add: acceptRequest_run acceptRequest_suspended acceptRequest_resume_collections
        collections_def)
     (simp add: acceptRequest_resume_def message_error_def acceptRequest_suspended)

lemma declineRequest_caught:
  "declineRequest_await net tok x w = Some (Inl err, w') \<Longrightarrow>
     collections (declineRequest net tok x w) = collections w \<and>
     notices (declineRequest net tok x w) = notices w @ [Error (Literal DeclineFailed)]"
  by (simp add: declineRequest_run declineRequest_suspended declineRequest_resume_collections
        collections_def)
     (simp add: declineRequest_resume_def message_error_def declineRequest_suspended)

lemma removeFriend_caught:
  "removeFriend_await net tok x w = Some (Inl err, w') \<Longrightarrow>
     collections (removeFriend net tok x w) = collections w \<and>
     notices (removeFriend net tok x w) = notices w @ [Error (Literal RemoveFriendFailed)]"
  by (simp add: removeFriend_run removeFriend_suspended removeFriend_resume_collections
        collections_def)
     (simp add: removeFriend_resume_def message_error_def removeFriend_suspended)

subsection \<open>A \<open>SUCCESS\<close> envelope\<close>

lemma loadFriends_success:
  "loadFriends_await net tok w = Some (Inr e, w') \<Longrightarrow> status e = SUCCESS \<Longrightarrow>
     friends (loadFriends net tok w) = (case data e of None \<Rightarrow> [] | Some p \<Rightarrow> p)"
  by (simp add: loadFriends_run loadFriends_resume_collections)

lemma loadRequests_success:
  "loadRequests_await net tok w = Some (Inr e, w') \<Longrightarrow> status e = SUCCESS \<Longrightarrow>
     requests (loadRequests net tok w) = (case data e of None \<Rightarrow> [] | Some p \<Rightarrow> p)"
  by (simp add: loadRequests_run loadRequests_resume_collections)

lemma removeFriend_success:
  "removeFriend_await net tok x w = Some (Inr e, w') \<Longrightarrow> status e = SUCCESS \<Longrightarrow>
     friends (removeFriend net tok x w) = filter (\<lambda>f. username f \<noteq> x) (friends w)"
  by (simp add: removeFriend_run removeFriend_resume_collections removeFriend_suspended)

lemma acceptRequest_success:
  "acceptRequest_await net tok x w = Some (Inr e, w') \<Longrightarrow> status e = SUCCESS \<Longrightarrow>
     requests (acceptRequest net tok x w) = filter (\<lambda>q. senderName q \<noteq> x) (requests w)"
  by (simp add: acceptRequest_run acceptRequest_resume_collections acceptRequest_suspended)

lemma declineRequest_success:
  "declineRequest_await net tok x w = Some (Inr e, w') \<Longrightarrow> status e = SUCCESS \<Longrightarrow>
     requests (declineRequest net tok x w) = filter (\<lambda>q. senderName q \<noteq> x) (requests w)"
  by (simp add: declineRequest_run declineRequest_resume_collections declineRequest_suspended)

lemma sendFriendRequest_notices:
  "sendFriendRequest_await net tok u w = Some (Inr e, w') \<Longrightarrow>
     notices (sendFriendRequest net tok u w) = notices w @
       [if status e = SUCCESS then Success (Literal RequestSent)
        else Error (case data e of None \<Rightarrow> Literal SendRequestFailed
                    | Some s \<Rightarrow> if s = [] then Literal SendRequestFailed else Text s)]"
  by (auto simp: sendFriendRequest_run sendFriendRequest_suspended sendFriendRequest_resume_def
      message_error_def message_success_def split: option.splits)

lemma sendFriendRequest_form:
  "sendFriendRequest_await net tok u w = Some (Inr e, w') \<Longrightarrow>
     form (sendFriendRequest net tok u w) = (if status e = SUCCESS then None else form w)"
  by (auto simp: sendFriendRequest_run sendFriendRequest_suspended sendFriendRequest_resume_def
      message_error_def message_success_def split: option.splits)

subsection \<open>Removal by filter\<close>

text \<open>Whatever its call resolves to, a removal keeps the collection or filters it.\<close>

lemma removeFriend_any:
  "friends (removeFriend net tok x w) = friends w
   \<or> friends (removeFriend net tok x w) = filter (\<lambda>f. username f \<noteq> x) (friends w)"
proof (cases "removeFriend_await net tok x w")
  case None
  then show ?thesis by (simp add: removeFriend_def)
next
  case (Some p)
  then obtain r w' where "removeFriend_await net tok x w = Some (r, w')" by (cases p) simp
  then show ?thesis
    by (simp add: removeFriend_run removeFriend_resume_collections removeFriend_suspended)
qed

lemma acceptRequest_any:
  "requests (acceptRequest net tok x w) = requests w
   \<or> requests (acceptRequest net tok x w) = filter (\<lambda>q. senderName q \<noteq> x) (requests w)"
proof (cases "acceptRequest_await net tok x w")
  case None
  then show ?thesis by (simp add: acceptRequest_def)
next
  case (Some p)
  then obtain r w' where "acceptRequest_await net tok x w = Some (r, w')" by (cases p) simp
  then show ?thesis
    by (simp add: acceptRequest_run acceptRequest_resume_collections acceptRequest_suspended)
qed

lemma declineRequest_any:
  "requests (declineRequest net tok x w) = requests w
   \<or> requests (declineRequest net tok x w) = filter (\<lambda>q. senderName q \<noteq> x) (requests w)"
proof (cases "declineRequest_await net tok x w")
  case None
  then show ?thesis by (simp add: declineRequest_def)
next
  case (Some p)
  then obtain r w' where "declineRequest_await net tok x w = Some (r, w')" by (cases p) simp
  then show ?thesis
    by (simp add: declineRequest_run declineRequest_resume_collections declineRequest_suspended)
qed

lemma filter_out_absent: "x \<notin> set (map key xs) \<Longrightarrow> filter (\<lambda>y. key y \<noteq> x) xs = xs"
  by (induction xs) auto

lemma filtered_absent: "x \<notin> set (map key (filter (\<lambda>y. key y \<noteq> x) xs))"
  by (induction xs) auto

lemma removeFriend_absent:
  "x \<notin> set (map username (friends w)) \<Longrightarrow> friends (removeFriend net tok x w) = friends w"
  using removeFriend_any [of net tok x w] by (auto simp: filter_out_absent)

lemma acceptRequest_absent:
  "x \<notin> set (map senderName (requests w)) \<Longrightarrow>
     requests (acceptRequest net tok x w) = requests w"
  using acceptRequest_any [of net tok x w] by (auto simp: filter_out_absent)

lemma declineRequest_absent:
  "x \<notin> set (map senderName (requests w)) \<Longrightarrow>
     requests (declineRequest net tok x w) = requests w"
  using declineRequest_any [of net tok x w] by (auto simp: filter_out_absent)

subsection \<open>De-duplication\<close>

lemma spec_dedupe_seen_distinct:
  "distinct (map key xs) \<Longrightarrow> set (map key xs) \<inter> set seen = {} \<Longrightarrow>
     spec_dedupe_seen key seen xs = xs"
  by (induction xs arbitrary: seen) auto

lemma spec_dedupe_distinct: "distinct (map key xs) \<Longrightarrow> spec_dedupe key xs = xs"
  by (simp add: spec_dedupe_def spec_dedupe_seen_distinct)

section \<open>Remote client: transport failures\<close>

text \<open>
  Claim C1, as amended. A client call whose transport fails (\<open>fetch\<close> rejects, or the
  response body is not JSON) does not return an envelope: \<open>apiCall\<close> and
  \<open>authenticatedApiCall\<close> throw into their caller. Each of the six relationship operations
  catches what its call threw: it leaves \<open>friends\<close> and \<open>requests\<close> as they were, shows
  one error message with its own fixed text, and ends normally.
\<close>

theorem transport_failure_thrown_then_caught:
  "(net (fetch_request endpoint options) = NetworkFailure \<longrightarrow>
      fst (apiCall net endpoint options) = Inl FetchRejected)
   \<and> (net (fetch_request endpoint options) = MalformedBody \<longrightarrow>
      fst (apiCall net endpoint options) = Inl JsonRejected)
   \<and> (net (fetch_request endpoint (authenticated_options t options)) = NetworkFailure \<longrightarrow>
      fst (authenticatedApiCall net endpoint t options) = Inl FetchRejected)
   \<and> (net (fetch_request endpoint (authenticated_options t options)) = MalformedBody \<longrightarrow>
      fst (authenticatedApiCall net endpoint t options) = Inl JsonRejected)
   \<and> (loadFriends_await netF tok w = Some (Inl err, wF) \<longrightarrow>
      collections (loadFriends netF tok w) = collections w \<and>
      notices (loadFriends netF tok w) = notices w @ [Error (Literal LoadFriendsFailed)])
   \<and> (loadRequests_await netR tok w = Some (Inl err, wR) \<longrightarrow>
      collections (loadRequests netR tok w) = collections w \<and>
      notices (loadRequests netR tok w) = notices w @ [Error (Literal LoadRequestsFailed)])
   \<and> (sendFriendRequest_await netS tok x w = Some (Inl err, wS) \<longrightarrow>
      collections (sendFriendRequest netS tok x w) = collections w \<and>
      notices (sendFriendRequest netS tok x w) = notices w @ [Error (Literal SendRequestFailed)])
   \<and> (acceptRequest_await netA tok x w = Some (Inl err, wA) \<longrightarrow>
      collections (acceptRequest netA tok x w) = collections w \<and>
      notices (acceptRequest netA tok x w) = notices w @ [Error (Literal AcceptFailed)])
   \<and> (declineRequest_await netD tok x w = Some (Inl err, wD) \<longrightarrow>
      collections (declineRequest netD tok x w) = collections w \<and>
      notices (declineRequest netD tok x w) = notices w @ [Error (Literal DeclineFailed)])
   \<and> (removeFriend_await netX tok x w = Some (Inl err, wX) \<longrightarrow>
      collections (removeFriend netX tok x w) = collections w \<and>
      notices (removeFriend netX tok x w) = notices w @ [Error (Literal RemoveFriendFailed)])"
  using apiCall_throws [of net endpoint options]
    apiCall_throws [of net endpoint "authenticated_options t options"]
    loadFriends_caught [of netF tok w err wF] loadRequests_caught [of netR tok w err wR]
    sendFriendRequest_caught [of netS tok x w err wS] acceptRequest_caught [of netA tok x w err wA]
    declineRequest_caught [of netD tok x w err wD] removeFriend_caught [of netX tok x w err wX]
  unfolding authenticatedApiCall_def by blast

text \<open>
  The theorem at an unreachable network and at one that answers with a body that is not
  JSON, on the populated dashboard with the token \<open>abc123\<close>.
\<close>

theorem transport_failure_thrown_then_caught_witness:
  "(unreachable :: jsval ApiResponse network)
       (fetch_request ''/api/v1/auth/user/login'' (with_method ''POST'')) = NetworkFailure
   \<and> fst (apiCall (unreachable :: jsval ApiResponse network)
            ''/api/v1/auth/user/login'' (with_method ''POST'')) = Inl FetchRejected
   \<and> (garbled :: jsval ApiResponse network)
       (fetch_request ''/api/v1/friendship/accept/carol''
          (authenticated_options ''abc123'' (with_method ''PUT''))) = MalformedBody
   \<and> fst (authenticatedApiCall (garbled :: jsval ApiResponse network)
            ''/api/v1/friendship/accept/carol'' ''abc123'' (with_method ''PUT'')) = Inl JsonRejected
   \<and> map_option fst (loadFriends_await unreachable (Some ''abc123'') populated)
        = Some (Inl FetchRejected)
   \<and> collections (loadFriends unreachable (Some ''abc123'') populated) = collections populated
   \<and> notices (loadFriends unreachable (Some ''abc123'') populated)
        = [Error (Literal LoadFriendsFailed)]
   \<and> map_option fst (loadRequests_await unreachable (Some ''abc123'') populated)
        = Some (Inl FetchRejected)
   \<and> notices (loadRequests unreachable (Some ''abc123'') populated)
        = [Error (Literal LoadRequestsFailed)]
   \<and> map_option fst (sendFriendRequest_await unreachable (Some ''abc123'') ''carol'' populated)
        = Some (Inl FetchRejected)
   \<and> notices (sendFriendRequest unreachable (Some ''abc123'') ''carol'' populated)
        = [Error (Literal SendRequestFailed)]
   \<and> map_option fst (acceptRequest_await garbled (Some ''abc123'') ''carol'' populated)
        = Some (Inl JsonRejected)
   \<and> requests (acceptRequest garbled (Some ''abc123'') ''carol'' populated) = [carol, bob, carol]
   \<and> notices (acceptRequest garbled (Some ''abc123'') ''carol'' populated)
        = [Error (Literal AcceptFailed)]
   \<and> map_option fst (declineRequest_await garbled (Some ''abc123'') ''carol'' populated)
        = Some (Inl JsonRejected)
   \<and> notices (declineRequest garbled (Some ''abc123'') ''carol'' populated)
        = [Error (Literal DeclineFailed)]
   \<and> map_option fst (removeFriend_await garbled (Some ''abc123'') ''carol'' populated)
        = Some (Inl JsonRejected)
   \<and> friends (removeFriend garbled (Some ''abc123'') ''carol'' populated) = [dave, erin, dave]
   \<and> notices (removeFriend garbled (Some ''abc123'') ''carol'' populated)
        = [Error (Literal RemoveFriendFailed)]"
  using transport_failure_thrown_then_caught
          [where net = "unreachable :: jsval ApiResponse network"
             and endpoint = "''/api/v1/auth/user/login''" and options = "with_method ''POST''"
             and t = "''abc123''" and tok = "Some ''abc123''" and w = populated
             and err = FetchRejected and x = "''carol''"
             and netF = unreachable
             and wF = "snd (the (loadFriends_await unreachable (Some ''abc123'') populated))"
             and netR = unreachable
             and wR = "snd (the (loadRequests_await unreachable (Some ''abc123'') populated))"
             and netS = unreachable
             and wS = "snd (the (sendFriendRequest_await unreachable (Some ''abc123'') ''carol'' populated))"
             and netA = unreachable
             and wA = "snd (the (acceptRequest_await unreachable (Some ''abc123'') ''carol'' populated))"
             and netD = unreachable
             and wD = "snd (the (declineRequest_await unreachable (Some ''abc123'') ''carol'' populated))"
             and netX = unreachable
             and wX = "snd (the (removeFriend_await unreachable (Some ''abc123'') ''carol'' populated))"]
        transport_failure_thrown_then_caught
          [where net = "garbled :: jsval ApiResponse network"
             and endpoint = "''/api/v1/friendship/accept/carol''" and options = "with_method ''PUT''"
             and t = "''abc123''" and tok = "Some ''abc123''" and w = populated
             and err = JsonRejected and x = "''carol''"
             and netF = garbled
             and wF = "snd (the (loadFriends_await garbled (Some ''abc123'') populated))"
             and netR = garbled
             and wR = "snd (the (loadRequests_await garbled (Some ''abc123'') populated))"
             and netS = garbled
             and wS = "snd (the (sendFriendRequest_await garbled (Some ''abc123'') ''carol'' populated))"
             and netA = garbled
             and wA = "snd (the (acceptRequest_await garbled (Some ''abc123'') ''carol'' populated))"
             and netD = garbled
             and wD = "snd (the (declineRequest_await garbled (Some ''abc123'') ''carol'' populated))"
             and netX = garbled
             and wX = "snd (the (removeFriend_await garbled (Some ''abc123'') ''carol'' populated))"]
  by (simp add: run_defs scenario_defs)

text \<open>
  The claim as first stated asks the client call itself to return a \<open>FAILURE\<close> envelope and
  never to throw. It throws: on an unreachable network the authenticated call for the
  friends list gives the exception, not an envelope, and so does a login call whose
  response body is not JSON.
\<close>

theorem transport_failure_counterexample:
  "fst (authenticatedApiCall (unreachable :: jsval ApiResponse network)
          ''/api/v1/friendship/friends'' ''abc123'' no_options) = Inl FetchRejected
   \<and> fst (apiCall (garbled :: jsval ApiResponse network)
          ''/api/v1/auth/user/login'' (with_method ''POST'')) = Inl JsonRejected"
  by (simp add: authenticatedApiCall_def apiCall_def unreachable_def garbled_def)


section \<open>Loading replaces a collection\<close>

text \<open>
  Claim C2, as amended. When \<open>loadFriends\<close> (\<open>loadRequests\<close>) resolves with a \<open>SUCCESS\<close>
  envelope, \<open>friends\<close> (\<open>requests\<close>) becomes the payload exactly as delivered, whatever
  the collection held before, and the empty list when the payload is absent. Nothing is
  de-duplicated: the result is \<open>spec_dedupe P\<close> when the identifiers of the payload \<open>P\<close> are
  distinct.
\<close>

theorem load_replaces_with_payload:
  "(loadFriends_await netF tok w = Some (Inr eF, wF) \<and> status eF = SUCCESS \<longrightarrow>
      (data eF = None \<longrightarrow> friends (loadFriends netF tok w) = [])
      \<and> (data eF = Some P \<longrightarrow> friends (loadFriends netF tok w) = P
           \<and> (distinct (map username P) \<longrightarrow>
                friends (loadFriends netF tok w) = spec_dedupe username P)))
   \<and> (loadRequests_await netR tok w = Some (Inr eR, wR) \<and> status eR = SUCCESS \<longrightarrow>
      (data eR = None \<longrightarrow> requests (loadRequests netR tok w) = [])
      \<and> (data eR = Some Q \<longrightarrow> requests (loadRequests netR tok w) = Q
           \<and> (distinct (map senderName Q) \<longrightarrow>
                requests (loadRequests netR tok w) = spec_dedupe senderName Q)))"
  using loadFriends_success [of netF tok w eF wF] loadRequests_success [of netR tok w eR wR]
  by (auto simp: spec_dedupe_distinct)

text \<open>
  The theorem on the populated dashboard: a payload of two distinct entries, and an absent
  payload, for each of the two operations.
\<close>

theorem load_replaces_with_payload_witness:
  "map_option fst (loadFriends_await (reply (envelope SUCCESS (Some [erin, dave])))
       (Some ''abc123'') populated) = Some (Inr (envelope SUCCESS (Some [erin, dave])))
   \<and> distinct (map username [erin, dave])
   \<and> friends (loadFriends (reply (envelope SUCCESS (Some [erin, dave]))) (Some ''abc123'') populated)
        = [erin, dave]
   \<and> spec_dedupe username [erin, dave] = [erin, dave]
   \<and> map_option fst (loadFriends_await (reply (envelope SUCCESS None))
       (Some ''abc123'') populated) = Some (Inr (envelope SUCCESS None))
   \<and> friends (loadFriends (reply (envelope SUCCESS None)) (Some ''abc123'') populated) = []
   \<and> map_option fst (loadRequests_await (reply (envelope SUCCESS (Some [bob, carol])))
       (Some ''abc123'') populated) = Some (Inr (envelope SUCCESS (Some [bob, carol])))
   \<and> distinct (map senderName [bob, carol])
   \<and> requests (loadRequests (reply (envelope SUCCESS (Some [bob, carol]))) (Some ''abc123'') populated)
        = [bob, carol]
   \<and> spec_dedupe senderName [bob, carol] = [bob, carol]
   \<and> map_option fst (loadRequests_await (reply (envelope SUCCESS None))
       (Some ''abc123'') populated) = Some (Inr (envelope SUCCESS None))
   \<and> requests (loadRequests (reply (envelope SUCCESS None)) (Some ''abc123'') populated) = []"
  using load_replaces_with_payload
          [where netF = "reply (envelope SUCCESS (Some [erin, dave]))" and tok = "Some ''abc123''"
             and w = populated and eF = "envelope SUCCESS (Some [erin, dave])" and P = "[erin, dave]"
             and wF = "snd (the (loadFriends_await (reply (envelope SUCCESS (Some [erin, dave])))
                         (Some ''abc123'') populated))"
             and netR = "reply (envelope SUCCESS (Some [bob, carol]))"
             and eR = "envelope SUCCESS (Some [bob, carol])" and Q = "[bob, carol]"
             and wR = "snd (the (loadRequests_await (reply (envelope SUCCESS (Some [bob, carol])))
                         (Some ''abc123'') populated))"]
        load_replaces_with_payload
          [where netF = "reply (envelope SUCCESS None)" and tok = "Some ''abc123''"
             and w = populated and eF = "envelope SUCCESS None" and P = "[]"
             and wF = "snd (the (loadFriends_await (reply (envelope SUCCESS None))
                         (Some ''abc123'') populated))"
             and netR = "reply (envelope SUCCESS None)"
             and eR = "envelope SUCCESS None" and Q = "[]"
             and wR = "snd (the (loadRequests_await (reply (envelope SUCCESS None))
                         (Some ''abc123'') populated))"]
  by (simp add: run_defs scenario_defs spec_dedupe_def)

text \<open>
  The claim as first stated has \<open>friends\<close> equal to the de-duplicated payload. A payload
  that names \<open>dave\<close> twice is stored with both entries.
\<close>

theorem load_dedupe_counterexample:
  "friends (loadFriends (reply (envelope SUCCESS (Some [dave, dave]))) (Some ''abc123'') Dashboard_init)
     = [dave, dave]
   \<and> spec_dedupe username [dave, dave] = [dave]
   \<and> friends (loadFriends (reply (envelope SUCCESS (Some [dave, dave]))) (Some ''abc123'') Dashboard_init)
     \<noteq> spec_dedupe username [dave, dave]"
  by (simp add: run_defs scenario_defs spec_dedupe_def)


section \<open>Session invariant\<close>

text \<open>
  Claim C3, as amended. After \<open>logout\<close> from any state, after the restore at startup
  over any stored content, and after \<open>login t\<close> from any state for every string \<open>t\<close>,
  the empty one included, the session is active exactly when it holds a token; the same
  holds after every sequence of logins and logouts that follows a startup. The token held
  is moreover non-empty, which is the invariant as the specification words it, after
  \<open>logout\<close>, after the restore, and after \<open>login t\<close> for every non-empty \<open>t\<close>, hence
  after every such sequence whose logins all pass a non-empty token. The restore
  preserves either invariant wherever it holds.
\<close>

theorem session_invariant:
  "session_present (login t s)
   \<and> session_present (logout s)
   \<and> session_present (mount st)
   \<and> session_present (session_run st acts)
   \<and> (session_present s \<longrightarrow> session_present (restore s))
   \<and> (t \<noteq> [] \<longrightarrow> session_inv (login t s))
   \<and> session_inv (logout s)
   \<and> session_inv (mount st)
   \<and> (session_inv s \<longrightarrow> session_inv (restore s))
   \<and> (list_all nonempty_login acts \<longrightarrow> session_inv (session_run st acts))"
  by (simp add: session_inv_login session_inv_logout session_inv_mount session_inv_restore
      session_inv_foldl session_present_login session_present_logout session_present_mount
      session_present_restore session_present_foldl session_run_def)

text \<open>
  The theorem at the token \<open>abc123\<close>, over an empty store and over a store that holds
  that token, and on two runs of three operations.
\<close>

theorem session_invariant_witness:
  "''abc123'' \<noteq> []
   \<and> session_inv (login ''abc123'' (mount []))
   \<and> isLoggedIn (login ''abc123'' (mount []))
   \<and> session_present (mount [(''authToken'', ''abc123'')])
   \<and> session_present (restore (mount [(''authToken'', ''abc123'')]))
   \<and> session_inv (mount [(''authToken'', ''abc123'')])
   \<and> session_inv (restore (mount [(''authToken'', ''abc123'')]))
   \<and> isLoggedIn (restore (mount [(''authToken'', ''abc123'')]))
   \<and> list_all nonempty_login [Login ''abc123'', Logout, Login ''x'']
   \<and> session_inv (session_run [] [Login ''abc123'', Logout, Login ''x''])
   \<and> token (session_run [] [Login ''abc123'', Logout, Login ''x'']) = Some ''x''
   \<and> session_present (session_run [] [Login ''abc123'', Logout, Login ''''])
   \<and> token (session_run [] [Login ''abc123'', Logout, Login '''']) = Some ''''"
  using session_invariant
          [where t = "''abc123''" and s = "mount []" and st = "[(''authToken'', ''abc123'')]"
             and acts = "[Login ''abc123'', Logout, Login ''x'']"]
        session_invariant
          [where t = "''abc123''" and s = "mount [(''authToken'', ''abc123'')]" and st = "[]"
             and acts = "[Login ''abc123'', Logout, Login ''x'']"]
        session_invariant
          [where t = "''abc123''" and s = "mount []" and st = "[]"
             and acts = "[Login ''abc123'', Logout, Login '''']"]
  by (simp add: session_defs)

text \<open>
  The claim as first stated includes \<open>login\<close> with the empty string. That login marks the
  session active while the token it holds is empty.
\<close>

theorem session_invariant_counterexample:
  "isLoggedIn (login '''' (mount []))
   \<and> token (login '''' (mount [])) = Some ''''
   \<and> \<not> session_inv (login '''' (mount []))"
  by (simp add: session_inv_def login_def)


section \<open>A \<open>FAILURE\<close> envelope\<close>

text \<open>
  Claim C4. Every operation whose envelope has status \<open>FAILURE\<close> should leave its
  collection unchanged and show an error message. \<open>loadRequests\<close>, \<open>sendFriendRequest\<close>,
  \<open>acceptRequest\<close> and \<open>declineRequest\<close> have an \<open>else\<close> branch that shows one;
  \<open>loadFriends\<close> and \<open>removeFriend\<close> have none. Evaluated with the token \<open>abc123\<close>: on
  a \<open>FAILURE\<close> envelope \<open>loadFriends\<close> and \<open>removeFriend\<close> show nothing, where
  \<open>loadRequests\<close> and \<open>acceptRequest\<close> show an error.
\<close>

theorem failure_envelope_not_surfaced:
  "notices (loadFriends (reply (envelope FAILURE None)) (Some ''abc123'') Dashboard_init) = []
   \<and> notices (removeFriend (reply (envelope FAILURE (JString ''not a friend'')))
                (Some ''abc123'') ''dave'' populated) = []
   \<and> friends (removeFriend (reply (envelope FAILURE (JString ''not a friend'')))
                (Some ''abc123'') ''dave'' populated) = [dave, erin, dave]
   \<and> notices (loadRequests (reply (envelope FAILURE None)) (Some ''abc123'') Dashboard_init)
       = [Error (Literal LoadRequestsFailed)]
   \<and> notices (acceptRequest (reply (envelope FAILURE (JString ''no such request'')))
                (Some ''abc123'') ''dave'' populated)
       = [Error (StringOf (JString ''no such request''))]"
  by (simp add: run_defs scenario_defs)


section \<open>Server-confirmed mutation\<close>

text \<open>
  Claim C5. In each of the six operations the two collections are the same at the
  suspension point as when the operation was called: nothing is changed before the remote
  call resolves. The operation then is its continuation applied to what the call resolved
  to, and unless that is an envelope with status \<open>SUCCESS\<close> (so for a \<open>FAILURE\<close> envelope
  and for a thrown call) the continuation leaves both collections as they were.
  \<open>sendFriendRequest\<close> leaves them as they were in every case.
\<close>

theorem mutation_only_after_success:
  "(loadFriends_await netF tok w = Some (rF, wF) \<longrightarrow>
      collections wF = collections w \<and> loadFriends netF tok w = loadFriends_resume rF wF \<and>
      (\<not> resolved_success rF \<longrightarrow> collections (loadFriends_resume rF wF) = collections w))
   \<and> (loadRequests_await netR tok w = Some (rR, wR) \<longrightarrow>
      collections wR = collections w \<and> loadRequests netR tok w = loadRequests_resume rR wR \<and>
      (\<not> resolved_success rR \<longrightarrow> collections (loadRequests_resume rR wR) = collections w))
   \<and> (sendFriendRequest_await netS tok x w = Some (rS, wS) \<longrightarrow>
      collections wS = collections w
      \<and> sendFriendRequest netS tok x w = sendFriendRequest_resume rS wS
      \<and> collections (sendFriendRequest_resume rS wS) = collections w)
   \<and> (acceptRequest_await netA tok x w = Some (rA, wA) \<longrightarrow>
      collections wA = collections w \<and> acceptRequest netA tok x w = acceptRequest_resume rA x wA \<and>
      (\<not> resolved_success rA \<longrightarrow> collections (acceptRequest_resume rA x wA) = collections w))
   \<and> (declineRequest_await netD tok x w = Some (rD, wD) \<longrightarrow>
      collections wD = collections w \<and> declineRequest netD tok x w = declineRequest_resume rD x wD \<and>
      (\<not> resolved_success rD \<longrightarrow> collections (declineRequest_resume rD x wD) = collections w))
   \<and> (removeFriend_await netX tok x w = Some (rX, wX) \<longrightarrow>
      collections wX = collections w \<and> removeFriend netX tok x w = removeFriend_resume rX x wX \<and>
      (\<not> resolved_success rX \<longrightarrow> collections (removeFriend_resume rX x wX) = collections w))"
  using loadFriends_confirmed [of netF tok w rF wF] loadRequests_confirmed [of netR tok w rR wR]
    sendFriendRequest_confirmed [of netS tok x w rS wS] acceptRequest_confirmed [of netA tok x w rA wA]
    declineRequest_confirmed [of netD tok x w rD wD] removeFriend_confirmed [of netX tok x w rX wX]
  by blast

text \<open>
  The theorem on the populated dashboard, with \<open>FAILURE\<close> envelopes and failed transports:
  every operation reaches its suspension point and ends with both collections as before.
\<close>

theorem mutation_only_after_success_witness:
  "map_option fst (loadFriends_await (reply (envelope FAILURE None)) (Some ''abc123'') populated)
      = Some (Inr (envelope FAILURE None))
   \<and> \<not> resolved_success (Inr (envelope FAILURE (None :: Friend list option)))
   \<and> collections (loadFriends (reply (envelope FAILURE None)) (Some ''abc123'') populated)
      = ([dave, erin, dave], [carol, bob, carol])
   \<and> map_option fst (loadRequests_await unreachable (Some ''abc123'') populated)
      = Some (Inl FetchRejected)
   \<and> collections (loadRequests unreachable (Some ''abc123'') populated)
      = ([dave, erin, dave], [carol, bob, carol])
   \<and> map_option fst (sendFriendRequest_await (reply (envelope SUCCESS None)) (Some ''abc123'')
        ''carol'' populated) = Some (Inr (envelope SUCCESS None))
   \<and> collections (sendFriendRequest (reply (envelope SUCCESS None)) (Some ''abc123'') ''carol'' populated)
      = ([dave, erin, dave], [carol, bob, carol])
   \<and> map_option fst (acceptRequest_await (reply (envelope FAILURE JNull)) (Some ''abc123'')
        ''carol'' populated) = Some (Inr (envelope FAILURE JNull))
   \<and> collections (acceptRequest (reply (envelope FAILURE JNull)) (Some ''abc123'') ''carol'' populated)
      = ([dave, erin, dave], [carol, bob, carol])
   \<and> map_option fst (declineRequest_await garbled (Some ''abc123'') ''carol'' populated)
      = Some (Inl JsonRejected)
   \<and> collections (declineRequest garbled (Some ''abc123'') ''carol'' populated)
      = ([dave, erin, dave], [carol, bob, carol])
   \<and> map_option fst (removeFriend_await (reply (envelope FAILURE JNull)) (Some ''abc123'')
        ''carol'' populated) = Some (Inr (envelope FAILURE JNull))
   \<and> collections (removeFriend (reply (envelope FAILURE JNull)) (Some ''abc123'') ''carol'' populated)
      = ([dave, erin, dave], [carol, bob, carol])"
  using mutation_only_after_success
          [where tok = "Some ''abc123''" and w = populated and x = "''carol''"
             and netF = "reply (envelope FAILURE None)" and rF = "Inr (envelope FAILURE None)"
             and wF = "snd (the (loadFriends_await (reply (envelope FAILURE None))
                         (Some ''abc123'') populated))"
             and netR = unreachable and rR = "Inl FetchRejected"
             and wR = "snd (the (loadRequests_await unreachable (Some ''abc123'') populated))"
             and netS = "reply (envelope SUCCESS None)" and rS = "Inr (envelope SUCCESS None)"
             and wS = "snd (the (sendFriendRequest_await (reply (envelope SUCCESS None))
                         (Some ''abc123'') ''carol'' populated))"
             and netA = "reply (envelope FAILURE JNull)" and rA = "Inr (envelope FAILURE JNull)"
             and wA = "snd (the (acceptRequest_await (reply (envelope FAILURE JNull))
                         (Some ''abc123'') ''carol'' populated))"
             and netD = garbled and rD = "Inl JsonRejected"
             and wD = "snd (the (declineRequest_await garbled (Some ''abc123'') ''carol'' populated))"
             and netX = "reply (envelope FAILURE JNull)" and rX = "Inr (envelope FAILURE JNull)"
             and wX = "snd (the (removeFriend_await (reply (envelope FAILURE JNull))
                         (Some ''abc123'') ''carol'' populated))"]
  by (simp add: run_defs scenario_defs)


section \<open>Removal\<close>

text \<open>
  Claim C6. After an \<open>acceptRequest\<close> or a \<open>declineRequest\<close> for \<open>x\<close> that resolved with a
  \<open>SUCCESS\<close> envelope, no entry of \<open>requests\<close> has the sender \<open>x\<close>; after such a
  \<open>removeFriend\<close>, no entry of \<open>friends\<close> has the username \<open>x\<close>. Running the same
  operation for \<open>x\<close> again, whatever the second call resolves to, leaves the
  collection as the first run left it.
\<close>

theorem removal_idempotent:
  "(acceptRequest_await netA tok x w = Some (Inr eA, wA) \<and> status eA = SUCCESS \<longrightarrow>
      x \<notin> set (map senderName (requests (acceptRequest netA tok x w)))
      \<and> requests (acceptRequest netA' tok' x (acceptRequest netA tok x w))
          = requests (acceptRequest netA tok x w))
   \<and> (declineRequest_await netD tok x w = Some (Inr eD, wD) \<and> status eD = SUCCESS \<longrightarrow>
      x \<notin> set (map senderName (requests (declineRequest netD tok x w)))
      \<and> requests (declineRequest netD' tok' x (declineRequest netD tok x w))
          = requests (declineRequest netD tok x w))
   \<and> (removeFriend_await netX tok x w = Some (Inr eX, wX) \<and> status eX = SUCCESS \<longrightarrow>
      x \<notin> set (map username (friends (removeFriend netX tok x w)))
      \<and> friends (removeFriend netX' tok' x (removeFriend netX tok x w))
          = friends (removeFriend netX tok x w))"
proof (intro conjI impI)
  assume "acceptRequest_await netA tok x w = Some (Inr eA, wA) \<and> status eA = SUCCESS"
  then have "requests (acceptRequest netA tok x w) = filter (\<lambda>q. senderName q \<noteq> x) (requests w)"
    by (simp add: acceptRequest_success)
  then show gone: "x \<notin> set (map senderName (requests (acceptRequest netA tok x w)))"
    by (simp only: filtered_absent not_False_eq_True)
  show "requests (acceptRequest netA' tok' x (acceptRequest netA tok x w))
          = requests (acceptRequest netA tok x w)"
    using gone by (rule acceptRequest_absent)
next
  assume "declineRequest_await netD tok x w = Some (Inr eD, wD) \<and> status eD = SUCCESS"
  then have "requests (declineRequest netD tok x w) = filter (\<lambda>q. senderName q \<noteq> x) (requests w)"
    by (simp add: declineRequest_success)
  then show gone: "x \<notin> set (map senderName (requests (declineRequest netD tok x w)))"
    by (simp only: filtered_absent not_False_eq_True)
  show "requests (declineRequest netD' tok' x (declineRequest netD tok x w))
          = requests (declineRequest netD tok x w)"
    using gone by (rule declineRequest_absent)
next
  assume "removeFriend_await netX tok x w = Some (Inr eX, wX) \<and> status eX = SUCCESS"
  then have "friends (removeFriend netX tok x w) = filter (\<lambda>f. username f \<noteq> x) (friends w)"
    by (simp add: removeFriend_success)
  then show gone: "x \<notin> set (map username (friends (removeFriend netX tok x w)))"
    by (simp only: filtered_absent not_False_eq_True)
  show "friends (removeFriend netX' tok' x (removeFriend netX tok x w))
          = friends (removeFriend netX tok x w)"
    using gone by (rule removeFriend_absent)
qed

text \<open>
  The theorem on the populated dashboard: \<open>carol\<close> accepted and declined, \<open>dave\<close>
  removed, each twice with a \<open>SUCCESS\<close> envelope.
\<close>

theorem removal_idempotent_witness:
  "map_option fst (acceptRequest_await (reply (envelope SUCCESS JNull)) (Some ''abc123'')
       ''carol'' populated) = Some (Inr (envelope SUCCESS JNull))
   \<and> requests (acceptRequest (reply (envelope SUCCESS JNull)) (Some ''abc123'') ''carol'' populated)
       = [bob]
   \<and> requests (acceptRequest (reply (envelope SUCCESS JNull)) (Some ''abc123'') ''carol''
        (acceptRequest (reply (envelope SUCCESS JNull)) (Some ''abc123'') ''carol'' populated))
       = [bob]
   \<and> map_option fst (declineRequest_await (reply (envelope SUCCESS JNull)) (Some ''abc123'')
       ''carol'' populated) = Some (Inr (envelope SUCCESS JNull))
   \<and> requests (declineRequest (reply (envelope SUCCESS JNull)) (Some ''abc123'') ''carol''
        (declineRequest (reply (envelope SUCCESS JNull)) (Some ''abc123'') ''carol'' populated))
       = [bob]
   \<and> map_option fst (removeFriend_await (reply (envelope SUCCESS JNull)) (Some ''abc123'')
       ''dave'' populated) = Some (Inr (envelope SUCCESS JNull))
   \<and> friends (removeFriend (reply (envelope SUCCESS JNull)) (Some ''abc123'') ''dave'' populated)
       = [erin]
   \<and> friends (removeFriend (reply (envelope SUCCESS JNull)) (Some ''abc123'') ''dave''
        (removeFriend (reply (envelope SUCCESS JNull)) (Some ''abc123'') ''dave'' populated))
       = [erin]"
  using removal_idempotent
          [where tok = "Some ''abc123''" and tok' = "Some ''abc123''" and w = populated
             and x = "''carol''"
             and netA = "reply (envelope SUCCESS JNull)" and eA = "envelope SUCCESS JNull"
             and netA' = "reply (envelope SUCCESS JNull)"
             and wA = "snd (the (acceptRequest_await (reply (envelope SUCCESS JNull))
                         (Some ''abc123'') ''carol'' populated))"
             and netD = "reply (envelope SUCCESS JNull)" and eD = "envelope SUCCESS JNull"
             and netD' = "reply (envelope SUCCESS JNull)"
             and wD = "snd (the (declineRequest_await (reply (envelope SUCCESS JNull))
                         (Some ''abc123'') ''carol'' populated))"
             and netX = "reply (envelope SUCCESS JNull)" and eX = "envelope SUCCESS JNull"
             and netX' = "reply (envelope SUCCESS JNull)"
             and wX = "snd (the (removeFriend_await (reply (envelope SUCCESS JNull))
                         (Some ''abc123'') ''carol'' populated))"]
        removal_idempotent
          [where tok = "Some ''abc123''" and tok' = "Some ''abc123''" and w = populated
             and x = "''dave''"
             and netA = "reply (envelope SUCCESS JNull)" and eA = "envelope SUCCESS JNull"
             and netA' = "reply (envelope SUCCESS JNull)"
             and wA = "snd (the (acceptRequest_await (reply (envelope SUCCESS JNull))
                         (Some ''abc123'') ''dave'' populated))"
             and netD = "reply (envelope SUCCESS JNull)" and eD = "envelope SUCCESS JNull"
             and netD' = "reply (envelope SUCCESS JNull)"
             and wD = "snd (the (declineRequest_await (reply (envelope SUCCESS JNull))
                         (Some ''abc123'') ''dave'' populated))"
             and netX = "reply (envelope SUCCESS JNull)" and eX = "envelope SUCCESS JNull"
             and netX' = "reply (envelope SUCCESS JNull)"
             and wX = "snd (the (removeFriend_await (reply (envelope SUCCESS JNull))
                         (Some ''abc123'') ''dave'' populated))"]
  by (simp add: run_defs scenario_defs)


section \<open>Session round trip\<close>

text \<open>
  Claim C7, as amended. For every non-empty token \<open>t\<close>, a provider created over the
  session store that \<open>login t\<close> left behind is active, with the token \<open>t\<close>, once its
  restore has run. A provider created over the store that \<open>logout\<close> left behind is
  inactive and holds no token.
\<close>

theorem session_round_trip:
  "(t \<noteq> [] \<longrightarrow> isLoggedIn (mount (sessionStorage (login t s)))
        \<and> token (mount (sessionStorage (login t s))) = Some t)
   \<and> \<not> isLoggedIn (mount (sessionStorage (logout s)))
   \<and> token (mount (sessionStorage (logout s))) = None"
  by (simp add: mount_def restore_def AuthProvider_init_def login_def logout_def
      getItem_def setItem_def removeItem_def map_of_put_same map_of_remove_same)

theorem session_round_trip_witness:
  "''abc123'' \<noteq> []
   \<and> isLoggedIn (mount (sessionStorage (login ''abc123'' (mount []))))
   \<and> token (mount (sessionStorage (login ''abc123'' (mount [])))) = Some ''abc123''
   \<and> \<not> isLoggedIn (mount (sessionStorage (logout (login ''abc123'' (mount [])))))
   \<and> token (mount (sessionStorage (logout (login ''abc123'' (mount []))))) = None"
  using session_round_trip [where t = "''abc123''" and s = "mount []"]
        session_round_trip [where t = "''abc123''" and s = "login ''abc123'' (mount [])"]
  by (simp add: session_defs)

text \<open>
  The claim as first stated is for every token. After \<open>login\<close> with the empty string the
  stored token is falsy, and a new provider stays inactive with no token.
\<close>

theorem session_round_trip_counterexample:
  "sessionStorage (login '''' (mount [])) = [(''authToken'', '''')]
   \<and> \<not> isLoggedIn (mount (sessionStorage (login '''' (mount []))))
   \<and> token (mount (sessionStorage (login '''' (mount [])))) = None"
  by (simp add: session_defs)


section \<open>No token, no call\<close>

text \<open>
  Claim C8. With no token, and equally with an empty one, each of the six operations
  returns before its remote call: it has no suspension point, and it leaves the whole
  world as it was, so no request is handed to \<open>fetch\<close> and \<open>friends\<close> and \<open>requests\<close> are
  unchanged.
\<close>

theorem no_token_no_call:
  assumes "\<not> truthy_string tok"
  shows "loadFriends_await netF tok w = None \<and> loadFriends netF tok w = w
     \<and> loadRequests_await netR tok w = None \<and> loadRequests netR tok w = w
     \<and> sendFriendRequest_await netS tok u w = None \<and> sendFriendRequest netS tok u w = w
     \<and> acceptRequest_await netA tok x w = None \<and> acceptRequest netA tok x w = w
     \<and> declineRequest_await netD tok x w = None \<and> declineRequest netD tok x w = w
     \<and> removeFriend_await netX tok x w = None \<and> removeFriend netX tok x w = w"
  using assms by (simp add: op_defs await_defs)

theorem no_token_no_call_witness:
  "\<not> truthy_string None
   \<and> loadFriends (reply (envelope SUCCESS (Some [erin]))) None populated = populated
   \<and> loadRequests (reply (envelope SUCCESS (Some [bob]))) None populated = populated
   \<and> sendFriendRequest (reply (envelope SUCCESS None)) None ''bob'' populated = populated
   \<and> acceptRequest (reply (envelope SUCCESS JNull)) None ''carol'' populated = populated
   \<and> declineRequest (reply (envelope SUCCESS JNull)) None ''carol'' populated = populated
   \<and> removeFriend (reply (envelope SUCCESS JNull)) None ''carol'' populated = populated
   \<and> issued (removeFriend (reply (envelope SUCCESS JNull)) None ''carol'' populated) = []
   \<and> \<not> truthy_string (Some '''')
   \<and> issued (loadFriends (reply (envelope SUCCESS (Some [erin]))) (Some '''') populated) = []"
  using no_token_no_call
          [where tok = None and w = populated and u = "''bob''" and x = "''carol''"
             and netF = "reply (envelope SUCCESS (Some [erin]))"
             and netR = "reply (envelope SUCCESS (Some [bob]))"
             and netS = "reply (envelope SUCCESS None)"
             and netA = "reply (envelope SUCCESS JNull)"
             and netD = "reply (envelope SUCCESS JNull)"
             and netX = "reply (envelope SUCCESS JNull)"]
        no_token_no_call
          [where tok = "Some ''''" and w = populated and u = "''bob''" and x = "''carol''"
             and netF = "reply (envelope SUCCESS (Some [erin]))"
             and netR = "reply (envelope SUCCESS (Some [bob]))"
             and netS = "reply (envelope SUCCESS None)"
             and netA = "reply (envelope SUCCESS JNull)"
             and netD = "reply (envelope SUCCESS JNull)"
             and netX = "reply (envelope SUCCESS JNull)"]
  by (simp add: populated_def Dashboard_init_def)


section \<open>Sending a request\<close>

text \<open>
  Claim C9. When the call of \<open>sendFriendRequest\<close> resolves with an envelope, \<open>friends\<close> and
  \<open>requests\<close> are left as they were. With status \<open>SUCCESS\<close> the form is reset and the
  success message is shown. With status \<open>FAILURE\<close> the error shown is the text in the
  envelope's data when that is a non-empty string, and the fixed text when the data is
  absent or empty.
\<close>

theorem sendFriendRequest_effects:
  assumes "sendFriendRequest_await net tok u w = Some (Inr e, w')"
  shows "friends (sendFriendRequest net tok u w) = friends w
     \<and> requests (sendFriendRequest net tok u w) = requests w
     \<and> (status e = SUCCESS \<longrightarrow> form (sendFriendRequest net tok u w) = None
          \<and> notices (sendFriendRequest net tok u w) = notices w @ [Success (Literal RequestSent)])
     \<and> (status e = FAILURE \<and> data e = Some s \<and> s \<noteq> [] \<longrightarrow>
          notices (sendFriendRequest net tok u w) = notices w @ [Error (Text s)])
     \<and> (status e = FAILURE \<and> \<not> truthy_string (data e) \<longrightarrow>
          notices (sendFriendRequest net tok u w) = notices w @ [Error (Literal SendRequestFailed)])"
proof -
  have run: "sendFriendRequest net tok u w = sendFriendRequest_resume (Inr e) w'"
    using assms by (rule sendFriendRequest_run)
  have frame: "friends w' = friends w" "requests w' = requests w"
    using sendFriendRequest_suspended [OF assms] by simp_all
  have "\<not> truthy_string (data e) \<Longrightarrow> data e = None \<or> data e = Some []"
    by (cases "data e") simp_all
  then show ?thesis
    using sendFriendRequest_notices [OF assms] sendFriendRequest_form [OF assms]
    by (auto simp: run frame sendFriendRequest_resume_collections)
qed

text \<open>
  The theorem on the populated dashboard with \<open>bob\<close> typed into the form: a \<open>SUCCESS\<close>
  envelope, a \<open>FAILURE\<close> envelope with a text, and one without.
\<close>

theorem sendFriendRequest_effects_witness:
  "map_option fst (sendFriendRequest_await (reply (envelope SUCCESS None)) (Some ''abc123'') ''bob''
       (populated\<lparr>form := Some ''bob''\<rparr>)) = Some (Inr (envelope SUCCESS None))
   \<and> collections (sendFriendRequest (reply (envelope SUCCESS None)) (Some ''abc123'') ''bob''
       (populated\<lparr>form := Some ''bob''\<rparr>)) = ([dave, erin, dave], [carol, bob, carol])
   \<and> form (sendFriendRequest (reply (envelope SUCCESS None)) (Some ''abc123'') ''bob''
       (populated\<lparr>form := Some ''bob''\<rparr>)) = None
   \<and> notices (sendFriendRequest (reply (envelope SUCCESS None)) (Some ''abc123'') ''bob''
       (populated\<lparr>form := Some ''bob''\<rparr>)) = [Success (Literal RequestSent)]
   \<and> notices (sendFriendRequest (reply (envelope FAILURE (Some ''already friends'')))
       (Some ''abc123'') ''bob'' (populated\<lparr>form := Some ''bob''\<rparr>))
       = [Error (Text ''already friends'')]
   \<and> \<not> truthy_string (data (envelope FAILURE (None :: string option)))
   \<and> notices (sendFriendRequest (reply (envelope FAILURE None))
       (Some ''abc123'') ''bob'' (populated\<lparr>form := Some ''bob''\<rparr>))
       = [Error (Literal SendRequestFailed)]"
  using sendFriendRequest_effects
          [where net = "reply (envelope SUCCESS None)" and tok = "Some ''abc123''" and u = "''bob''"
             and w = "populated\<lparr>form := Some ''bob''\<rparr>" and e = "envelope SUCCESS None"
             and s = "''already friends''"
             and w' = "snd (the (sendFriendRequest_await (reply (envelope SUCCESS None))
                         (Some ''abc123'') ''bob'' (populated\<lparr>form := Some ''bob''\<rparr>)))"]
        sendFriendRequest_effects
          [where net = "reply (envelope FAILURE (Some ''already friends''))"
             and tok = "Some ''abc123''" and u = "''bob''"
             and w = "populated\<lparr>form := Some ''bob''\<rparr>"
             and e = "envelope FAILURE (Some ''already friends'')"
             and s = "''already friends''"
             and w' = "snd (the (sendFriendRequest_await
                         (reply (envelope FAILURE (Some ''already friends'')))
                         (Some ''abc123'') ''bob'' (populated\<lparr>form := Some ''bob''\<rparr>)))"]
        sendFriendRequest_effects
          [where net = "reply (envelope FAILURE None)" and tok = "Some ''abc123''" and u = "''bob''"
             and w = "populated\<lparr>form := Some ''bob''\<rparr>" and e = "envelope FAILURE None"
             and s = "''already friends''"
             and w' = "snd (the (sendFriendRequest_await (reply (envelope FAILURE None))
                         (Some ''abc123'') ''bob'' (populated\<lparr>form := Some ''bob''\<rparr>)))"]
  by (simp add: run_defs scenario_defs)


section \<open>Removal is a filter\<close>

text \<open>
  Claim C10. From every state, also one that holds an identifier more than once, a
  \<open>removeFriend\<close> for \<open>x\<close> that resolved with a \<open>SUCCESS\<close> envelope leaves exactly the
  entries of \<open>friends\<close> whose username is not \<open>x\<close>, in their order: the list is shorter by
  the number of entries that had the username \<open>x\<close>, not by one. \<open>acceptRequest\<close> and
  \<open>declineRequest\<close> do the same to \<open>requests\<close> by sender name.
\<close>

theorem removal_filters_every_match:
  "(removeFriend_await netX tok x w = Some (Inr eX, wX) \<and> status eX = SUCCESS \<longrightarrow>
      friends (removeFriend netX tok x w) = filter (\<lambda>f. username f \<noteq> x) (friends w)
      \<and> length (friends (removeFriend netX tok x w))
          + length (filter (\<lambda>f. username f = x) (friends w)) = length (friends w))
   \<and> (acceptRequest_await netA tok x w = Some (Inr eA, wA) \<and> status eA = SUCCESS \<longrightarrow>
      requests (acceptRequest netA tok x w) = filter (\<lambda>q. senderName q \<noteq> x) (requests w)
      \<and> length (requests (acceptRequest netA tok x w))
          + length (filter (\<lambda>q. senderName q = x) (requests w)) = length (requests w))
   \<and> (declineRequest_await netD tok x w = Some (Inr eD, wD) \<and> status eD = SUCCESS \<longrightarrow>
      requests (declineRequest netD tok x w) = filter (\<lambda>q. senderName q \<noteq> x) (requests w)
      \<and> length (requests (declineRequest netD tok x w))
          + length (filter (\<lambda>q. senderName q = x) (requests w)) = length (requests w))"
  using sum_length_filter_compl [of "\<lambda>f. username f = x" "friends w"]
    sum_length_filter_compl [of "\<lambda>q. senderName q = x" "requests w"]
  by (auto simp: removeFriend_success acceptRequest_success declineRequest_success)

text \<open>
  The theorem on the populated dashboard, where \<open>dave\<close> is a friend twice and \<open>carol\<close>
  has two pending requests: both entries go.
\<close>

theorem removal_filters_every_match_witness:
  "friends populated = [dave, erin, dave]
   \<and> map_option fst (removeFriend_await (reply (envelope SUCCESS JNull)) (Some ''abc123'')
       ''dave'' populated) = Some (Inr (envelope SUCCESS JNull))
   \<and> friends (removeFriend (reply (envelope SUCCESS JNull)) (Some ''abc123'') ''dave'' populated)
       = [erin]
   \<and> requests populated = [carol, bob, carol]
   \<and> map_option fst (acceptRequest_await (reply (envelope SUCCESS JNull)) (Some ''abc123'')
       ''carol'' populated) = Some (Inr (envelope SUCCESS JNull))
   \<and> requests (acceptRequest (reply (envelope SUCCESS JNull)) (Some ''abc123'') ''carol'' populated)
       = [bob]
   \<and> map_option fst (declineRequest_await (reply (envelope SUCCESS JNull)) (Some ''abc123'')
       ''carol'' populated) = Some (Inr (envelope SUCCESS JNull))
   \<and> requests (declineRequest (reply (envelope SUCCESS JNull)) (Some ''abc123'') ''carol'' populated)
       = [bob]"
  using removal_filters_every_match
          [where tok = "Some ''abc123''" and w = populated and x = "''dave''"
             and netX = "reply (envelope SUCCESS JNull)" and eX = "envelope SUCCESS JNull"
             and wX = "snd (the (removeFriend_await (reply (envelope SUCCESS JNull))
                         (Some ''abc123'') ''dave'' populated))"
             and netA = "reply (envelope SUCCESS JNull)" and eA = "envelope SUCCESS JNull"
             and wA = "snd (the (acceptRequest_await (reply (envelope SUCCESS JNull))
                         (Some ''abc123'') ''dave'' populated))"
             and netD = "reply (envelope SUCCESS JNull)" and eD = "envelope SUCCESS JNull"
             and wD = "snd (the (declineRequest_await (reply (envelope SUCCESS JNull))
                         (Some ''abc123'') ''dave'' populated))"]
        removal_filters_every_match
          [where tok = "Some ''abc123''" and w = populated and x = "''carol''"
             and netX = "reply (envelope SUCCESS JNull)" and eX = "envelope SUCCESS JNull"
             and wX = "snd (the (removeFriend_await (reply (envelope SUCCESS JNull))
                         (Some ''abc123'') ''carol'' populated))"
             and netA = "reply (envelope SUCCESS JNull)" and eA = "envelope SUCCESS JNull"
             and wA = "snd (the (acceptRequest_await (reply (envelope SUCCESS JNull))
                         (Some ''abc123'') ''carol'' populated))"
             and netD = "reply (envelope SUCCESS JNull)" and eD = "envelope SUCCESS JNull"
             and wD = "snd (the (declineRequest_await (reply (envelope SUCCESS JNull))
                         (Some ''abc123'') ''carol'' populated))"]
  by (simp add: run_defs scenario_defs)

end
